theory Spec2Isabelle
  imports Main
begin

section \<open>Python strings\<close>

text \<open>
  Text is a \<^typ>\<open>string\<close>; a \<^typ>\<open>char\<close> stands for one code point in the range
  0..255, and the string methods of Python that the program calls are written out on
  that range. Text with code points beyond 255 is outside the model.
\<close>

text \<open>\<^verbatim>\<open>c.isspace()\<close>: tab, line feed, vertical tab, form feed, carriage return, the
  separators 28..31, space, next-line (133) and no-break space (160).\<close>

definition isspace :: "char \<Rightarrow> bool" where
  "isspace c = (of_char c \<in> {9, 10, 11, 12, 13, 28, 29, 30, 31, 32, 133, 160 :: nat})"

definition lstrip :: "string \<Rightarrow> string" where
  "lstrip s = dropWhile isspace s"

definition rstrip :: "string \<Rightarrow> string" where
  "rstrip s = rev (dropWhile isspace (rev s))"

definition strip :: "string \<Rightarrow> string" where
  "strip s = rstrip (lstrip s)"

text \<open>\<^verbatim>\<open>s.lower()\<close>: the letters A..Z and the upper-case letters 192..222 of Latin-1
  (215, the multiplication sign, has no case) move up by 32.\<close>

definition lower_char :: "char \<Rightarrow> char" where
  "lower_char c =
     (let n = of_char c :: nat
      in if (65 \<le> n \<and> n \<le> 90) \<or> (192 \<le> n \<and> n \<le> 222 \<and> n \<noteq> 215)
         then char_of (n + 32) else c)"

definition lower :: "string \<Rightarrow> string" where
  "lower s = map lower_char s"

text \<open>\<^verbatim>\<open>s.startswith(p)\<close> and \<^verbatim>\<open>p in s\<close> (substring test).\<close>

fun startswith :: "string \<Rightarrow> string \<Rightarrow> bool" where
  "startswith s [] = True"
| "startswith [] (p # ps) = False"
| "startswith (c # cs) (p # ps) = (c = p \<and> startswith cs ps)"

fun contains :: "string \<Rightarrow> string \<Rightarrow> bool" where
  "contains [] p = (p = [])"
| "contains (c # cs) p = (startswith (c # cs) p \<or> contains cs p)"







text \<open>\<^verbatim>\<open>s.split(c, n)\<close> for a separator of one character: at most \<open>n\<close> splits, from the
  left, empty fields kept. \<^verbatim>\<open>s.split(c)\<close> splits at every occurrence; a string has no more
  occurrences than characters.\<close>

fun str_split_max :: "string \<Rightarrow> char \<Rightarrow> nat \<Rightarrow> string list" where
  "str_split_max s c 0 = [s]"
| "str_split_max s c (Suc n) =
     (if c \<in> set s
      then takeWhile (\<lambda>x. x \<noteq> c) s # str_split_max (tl (dropWhile (\<lambda>x. x \<noteq> c) s)) c n
      else [s])"

definition str_split :: "string \<Rightarrow> char \<Rightarrow> string list" where
  "str_split s c = str_split_max s c (length s)"

text \<open>\<^verbatim>\<open>s.split()\<close>: the maximal runs of characters that are not white space; \<open>cur\<close> is
  the run being read.\<close>

fun split_runs :: "string \<Rightarrow> string \<Rightarrow> string list" where
  "split_runs cur [] = (if cur = [] then [] else [cur])"
| "split_runs cur (c # cs) =
     (if isspace c then (if cur = [] then [] else [cur]) @ split_runs [] cs
      else split_runs (cur @ [c]) cs)"

definition split_whitespace :: "string \<Rightarrow> string list" where
  "split_whitespace s = split_runs [] s"

definition newline :: char where
  "newline = CHR 0x0A"

section \<open>Command runner\<close>









section \<open>Operation worker\<close>

text \<open>
  What a worker hands to \<^verbatim>\<open>GLib.idle_add\<close>: a call of one of the four callbacks of
  the window, in the order of the calls.
\<close>

datatype event =
    Output string
  | Progress int
  | Status string
  | Done bool string

text \<open>\<^verbatim>\<open>PackageOpWorker._progress_hint\<close>: the \<^verbatim>\<open>if/elif\<close> chain on the lower-cased
  line; the result is the list of progress callbacks scheduled for this line.\<close>

definition progress_hint :: "string \<Rightarrow> event list" where
  "progress_hint line =
     (let l = lower line
      in if contains l ''downloading'' then [Progress 50]
         else if contains l ''installing'' then [Progress 75]
         else if contains l ''removing'' then [Progress 60]
         else if contains l ''loading'' then [Progress 40]
         else [])"












section \<open>Search worker\<close>

text \<open>The dictionary built for each package found. \<^verbatim>\<open>_is_installed\<close> asks the package
  manager; its answer is the parameter \<open>is_installed\<close> of the parsers.\<close>

record package =
  name :: string
  pkg :: string
  version :: string
  description :: string
  repository :: string
  installed :: bool

text \<open>\<^verbatim>\<open>SearchWorker._parse_pacman_search\<close>. The loop over the index \<open>i\<close> is a recursion
  over the lines that are left; consuming the description line skips one more line.\<close>

definition pacman_package :: "(string \<Rightarrow> bool) \<Rightarrow> string list \<Rightarrow> string \<Rightarrow> package" where
  "pacman_package is_installed parts descr =
     (let nm = parts ! 0;
          ver = (if length parts > 1 then parts ! 1 else []);
          repo = (if CHR ''/'' \<in> set nm then hd (str_split nm CHR ''/'') else ''unknown'');
          pkg_name = last (str_split nm CHR ''/'')
      in \<lparr>name = nm, pkg = pkg_name, version = ver, description = descr,
          repository = repo, installed = is_installed pkg_name\<rparr>)"

fun parse_pacman_lines :: "(string \<Rightarrow> bool) \<Rightarrow> string list \<Rightarrow> package list" where
  "parse_pacman_lines is_installed [] = []"
| "parse_pacman_lines is_installed (raw # rest) =
     (let line = strip raw
      in if line \<noteq> [] \<and> \<not> startswith line '' ''
         then (let parts = str_split_max line CHR '' '' 1
               in if length parts \<ge> 2
                  then (case rest of
                          [] \<Rightarrow> [pacman_package is_installed parts []]
                        | nxt # rest' \<Rightarrow>
                            if startswith nxt ''    ''
                            then pacman_package is_installed parts (strip nxt)
                                 # parse_pacman_lines is_installed rest'
                            else pacman_package is_installed parts []
                                 # parse_pacman_lines is_installed rest)
                  else parse_pacman_lines is_installed rest)
         else parse_pacman_lines is_installed rest)"

definition parse_pacman_search :: "(string \<Rightarrow> bool) \<Rightarrow> string \<Rightarrow> package list" where
  "parse_pacman_search is_installed output =
     parse_pacman_lines is_installed (str_split output newline)"

text \<open>\<^verbatim>\<open>SearchWorker._parse_aur_search\<close>.\<close>

fun parse_aur_lines :: "(string \<Rightarrow> bool) \<Rightarrow> string list \<Rightarrow> package list" where
  "parse_aur_lines is_installed [] = []"
| "parse_aur_lines is_installed (line # rest) =
     (if strip line \<noteq> [] \<and> \<not> startswith line '' ''
      then (let parts = str_split_max line CHR '' '' 2
            in if length parts \<ge> 2
               then (let nm = (if parts ! 0 = ''aur/'' then parts ! 1 else parts ! 0);
                         ver = (if parts ! 0 = ''aur/'' then parts ! 1 else []);
                         descr = (if length parts > 2 then parts ! 2 else [])
                     in [\<lparr>name = nm, pkg = nm, version = ver, description = descr,
                          repository = ''aur'', installed = is_installed nm\<rparr>])
               else [])
      else [])
     @ parse_aur_lines is_installed rest"


text \<open>An installed set for the examples: nothing is installed.\<close>

definition nothing_installed :: "string \<Rightarrow> bool" where
  "nothing_installed nm = False"

section \<open>Update scanner\<close>

text \<open>What \<^verbatim>\<open>subprocess.run(..., capture_output=True, text=True, timeout=...)\<close> gives: a
  completed process with its return code and standard output, or an exception (the
  command cannot be started, or the timeout expires).\<close>

datatype process = Completed (returncode: int) (stdout: string) | Raised

record update_item =
  upd_name :: string
  upd_from :: string
  upd_to :: string

text \<open>The worker of \<^verbatim>\<open>PKGERWindow.load_updates_data\<close>; the fields of \<open>update_item\<close> are the
  keys \<^verbatim>\<open>name\<close>, \<^verbatim>\<open>from\<close>, \<^verbatim>\<open>to\<close> of the dictionary. \<open>sys\<close> is the system: the result of
  running an argv.\<close>

definition parse_update_line :: "string \<Rightarrow> update_item list" where
  "parse_update_line line =
     (if strip line = [] then []
      else (let parts = split_whitespace line
            in if length parts \<ge> 4 \<and> parts ! 2 = ''->''
               then [\<lparr>upd_name = parts ! 0, upd_from = parts ! 1, upd_to = parts ! 3\<rparr>]
               else []))"

fun parse_update_lines :: "string list \<Rightarrow> update_item list" where
  "parse_update_lines [] = []"
| "parse_update_lines (line # rest) = parse_update_line line @ parse_update_lines rest"

definition load_updates_worker :: "(string list \<Rightarrow> process) \<Rightarrow> update_item list" where
  "load_updates_worker sys =
     (case sys [''bash'', ''-lc'', ''pacman -Qu''] of
        Raised \<Rightarrow> []
      | Completed rc out \<Rightarrow> parse_update_lines (str_split (strip out) newline))"

text \<open>Example systems.\<close>

definition updates_sys :: "string list \<Rightarrow> process" where
  "updates_sys argv =
     Completed 0 (''firefox 120.0-1 -> 121.0-1'' @ [newline] @ ''malformed line'' @ [newline])"

definition broken_sys :: "string list \<Rightarrow> process" where
  "broken_sys argv = Raised"








section \<open>Details resolver\<close>

text \<open>\<^verbatim>\<open>s.replace(old, new)\<close> for a non-empty \<open>old\<close>: the occurrences are replaced from
  the left and do not overlap.\<close>

function str_replace :: "string \<Rightarrow> string \<Rightarrow> string \<Rightarrow> string" where
  "str_replace s old new =
     (if s = [] then []
      else if old \<noteq> [] \<and> startswith s old
           then new @ str_replace (drop (length old) s) old new
           else hd s # str_replace (tl s) old new)"
  by pat_completeness auto
termination
  by (relation "measure (\<lambda>(s, old, new). length s)") auto

declare str_replace.simps [simp del]

text \<open>The dictionary \<^verbatim>\<open>info\<close> of \<^verbatim>\<open>_get_package_details\<close>; the field \<open>Installed_Size\<close>
  is the key \<^verbatim>\<open>Installed Size\<close>.\<close>

record details =
  Name :: string
  Version :: string
  Repository :: string
  Installed :: string
  Installed_Size :: string
  License :: string
  URL :: string
  Description :: string
  Depends :: "string list"
  RequiredBy :: "string list"

definition initial_info :: "string \<Rightarrow> string \<Rightarrow> details" where
  "initial_info nm repo =
     \<lparr>Name = nm, Version = ''-'', Repository = repo, Installed = ''No'',
      Installed_Size = ''-'', License = ''-'', URL = ''-'', Description = ''-'',
      Depends = [], RequiredBy = []\<rparr>"

text \<open>\<^verbatim>\<open>PKGERWindow._parse_key_values\<close>: the body of the loop, and the loop over the lines
  of the text.\<close>

definition parse_key_value :: "string \<Rightarrow> details \<Rightarrow> details" where
  "parse_key_value line info =
     (if CHR '':'' \<in> set line
      then (let parts = str_split_max line CHR '':'' 1;
                key = strip (parts ! 0);
                val = strip (parts ! 1);
                kl = lower key
            in if kl = ''version'' then info\<lparr>Version := val\<rparr>
               else if kl = ''repository'' \<or> kl = ''repo'' then info\<lparr>Repository := val\<rparr>
               else if kl = ''installed size'' then info\<lparr>Installed_Size := val\<rparr>
               else if kl = ''license'' then info\<lparr>License := val\<rparr>
               else if kl = ''url'' then info\<lparr>URL := val\<rparr>
               else if kl = ''description'' then info\<lparr>Description := val\<rparr>
               else if kl = ''depends on'' \<or> kl = ''depends''
                    then info\<lparr>Depends :=
                           filter (\<lambda>p. strip p \<noteq> [])
                             (map strip (split_whitespace (str_replace val ''None'' [])))\<rparr>
               else info)
      else info)"

fun parse_key_value_lines :: "string list \<Rightarrow> details \<Rightarrow> details" where
  "parse_key_value_lines [] info = info"
| "parse_key_value_lines (line # rest) info =
     parse_key_value_lines rest (parse_key_value line info)"

definition parse_key_values :: "string \<Rightarrow> details \<Rightarrow> details" where
  "parse_key_values text info = parse_key_value_lines (str_split text newline) info"

text \<open>The first \<^verbatim>\<open>try\<close> block: the installed-metadata query and, when it does not
  succeed, the remote one. The second component lists the commands that were run. An
  exception at either query leaves the block with \<open>info\<close> as it is.\<close>

definition primary_lookup ::
  "(string list \<Rightarrow> process) \<Rightarrow> string \<Rightarrow> string \<Rightarrow> details
     \<Rightarrow> details \<times> string list list" where
  "primary_lookup sys nm repo info =
     (let qi = [''pacman'', ''-Qi'', nm];
          si = (if repo = ''aur'' then [''yay'', ''-Si'', nm] else [''pacman'', ''-Si'', nm])
      in case sys qi of
           Raised \<Rightarrow> (info, [qi])
         | Completed rc out \<Rightarrow>
             if rc = 0
             then (parse_key_values out (info\<lparr>Installed := ''Yes''\<rparr>), [qi])
             else (case sys si of
                     Raised \<Rightarrow> (info, [qi, si])
                   | Completed rc' out' \<Rightarrow>
                       if rc' = 0 then (parse_key_values out' info, [qi, si])
                       else (info, [qi, si])))"

text \<open>The lines of a dependency tree: stripped, the blank ones dropped, the first 50.\<close>

definition tree_lines :: "string \<Rightarrow> string list" where
  "tree_lines out =
     take 50 (map strip (filter (\<lambda>l. strip l \<noteq> []) (str_split out newline)))"

definition dependency_lookup ::
  "(string list \<Rightarrow> process) \<Rightarrow> string \<Rightarrow> details \<Rightarrow> details \<times> string list list" where
  "dependency_lookup sys nm info =
     (let dep = [''pactree'', nm];
          rdep = [''pactree'', ''-r'', nm];
          info1 = (case sys dep of
                     Raised \<Rightarrow> info
                   | Completed rc out \<Rightarrow>
                       if rc = 0 then info\<lparr>Depends := tree_lines out\<rparr> else info);
          info2 = (case sys rdep of
                     Raised \<Rightarrow> info1
                   | Completed rc out \<Rightarrow>
                       if rc = 0 then info1\<lparr>RequiredBy := tree_lines out\<rparr> else info1)
      in (info2, [dep, rdep]))"

text \<open>What a miss computes, between the lookup in the cache and the insertion.\<close>

definition fetch_details ::
  "(string list \<Rightarrow> process) \<Rightarrow> string \<Rightarrow> string \<Rightarrow> bool \<Rightarrow> details \<times> string list list" where
  "fetch_details sys nm repo with_deps =
     (let (info1, run1) = primary_lookup sys nm repo (initial_info nm repo)
      in if with_deps
         then (let (info2, run2) = dependency_lookup sys nm info1 in (info2, run1 @ run2))
         else (info1, run1))"

text \<open>
  The cache is a Python dictionary: the entries in insertion order, the keys distinct.
  \<open>dict_set\<close> is \<^verbatim>\<open>d[k] = v\<close> (a new key goes to the end, a known key keeps its place),
  \<open>dict_pop\<close> is \<^verbatim>\<open>d.pop(k, None)\<close>, \<open>pop_keys\<close> the loop that pops a list of keys.
\<close>

type_synonym cache = "(string \<times> details) list"

fun dict_set :: "('k \<times> 'v) list \<Rightarrow> 'k \<Rightarrow> 'v \<Rightarrow> ('k \<times> 'v) list" where
  "dict_set [] k v = [(k, v)]"
| "dict_set ((k', v') # d) k v =
     (if k' = k then (k, v) # d else (k', v') # dict_set d k v)"

definition dict_pop :: "('k \<times> 'v) list \<Rightarrow> 'k \<Rightarrow> ('k \<times> 'v) list" where
  "dict_pop d k = filter (\<lambda>e. fst e \<noteq> k) d"

fun pop_keys :: "'k list \<Rightarrow> ('k \<times> 'v) list \<Rightarrow> ('k \<times> 'v) list" where
  "pop_keys [] d = d"
| "pop_keys (k # ks) d = pop_keys ks (dict_pop d k)"

definition cache_key :: "string \<Rightarrow> string \<Rightarrow> bool \<Rightarrow> string" where
  "cache_key nm repo with_deps =
     repo @ '':'' @ nm @ '':'' @ (if with_deps then ''deps'' else ''nodeps'')"

text \<open>The cull after the insertion: over 200 entries, the first 50 keys are popped.\<close>

definition cull :: "cache \<Rightarrow> cache" where
  "cull d = (if length d > 200 then pop_keys (take 50 (map fst d)) d else d)"

text \<open>The cache between the insertion and the cull, when the call misses.\<close>

definition pending_cache ::
  "(string list \<Rightarrow> process) \<Rightarrow> cache \<Rightarrow> string \<Rightarrow> string \<Rightarrow> bool \<Rightarrow> cache" where
  "pending_cache sys c nm repo with_deps =
     dict_set c (cache_key nm repo with_deps) (fst (fetch_details sys nm repo with_deps))"

text \<open>\<^verbatim>\<open>PKGERWindow._get_package_details\<close>: the dictionary returned, the cache after the
  call, and the commands that were run.\<close>

record resolution =
  result :: details
  new_cache :: cache
  processes :: "string list list"

definition get_package_details ::
  "(string list \<Rightarrow> process) \<Rightarrow> cache \<Rightarrow> string \<Rightarrow> string \<Rightarrow> bool \<Rightarrow> resolution" where
  "get_package_details sys c nm repo with_deps =
     (case map_of c (cache_key nm repo with_deps) of
        Some hit \<Rightarrow> \<lparr>result = hit, new_cache = c, processes = []\<rparr>
      | None \<Rightarrow>
          \<lparr>result = fst (fetch_details sys nm repo with_deps),
           new_cache = cull (pending_cache sys c nm repo with_deps),
           processes = snd (fetch_details sys nm repo with_deps)\<rparr>)"



text \<open>Example systems and caches.\<close>

definition vim_sys :: "string list \<Rightarrow> process" where
  "vim_sys argv =
     (if argv = [''pacman'', ''-Qi'', ''vim'']
      then Completed 0 (''Name            : vim'' @ [newline]
             @ ''Version         : 9.1.0-1'' @ [newline]
             @ ''Depends On      : vim-runtime  gpm  None'' @ [newline]
             @ ''Installed Size  : 4.9 MiB'' @ [newline])
      else Completed 1 [])"



section \<open>The window and its operation worker\<close>

























section \<open>Properties\<close>

lemma startswith_iff: "startswith s p \<longleftrightarrow> (\<exists>r. s = p @ r)"
  by (induction s p rule: startswith.induct) auto

lemma contains_iff: "contains s p \<longleftrightarrow> (\<exists>a b. s = a @ p @ b)"
proof (induction s)
  case Nil
  then show ?case by auto
next
  case (Cons c cs)
  show ?case
  proof
    assume "contains (c # cs) p"
    then consider "startswith (c # cs) p" | "contains cs p" by auto
    then show "\<exists>a b. c # cs = a @ p @ b"
    proof cases
      case 1
      then obtain r where "c # cs = p @ r" by (auto simp: startswith_iff)
      then have "c # cs = [] @ p @ r" by simp
      then show ?thesis by blast
    next
      case 2
      then obtain a b where "cs = a @ p @ b" using Cons.IH by auto
      then have "c # cs = (c # a) @ p @ b" by simp
      then show ?thesis by blast
    qed
  next
    assume "\<exists>a b. c # cs = a @ p @ b"
    then obtain a b where ab: "c # cs = a @ p @ b" by auto
    show "contains (c # cs) p"
    proof (cases a)
      case Nil
      with ab have "startswith (c # cs) p" by (auto simp: startswith_iff)
      then show ?thesis by simp
    next
      case (Cons x a')
      with ab have "cs = a' @ p @ b" by simp
      then have "contains cs p" using Cons.IH by auto
      then show ?thesis by simp
    qed
  qed
qed




lemma lstrip_empty_iff: "lstrip s = [] \<longleftrightarrow> list_all isspace s"
  by (simp add: lstrip_def list_all_iff)

lemma rstrip_empty_iff: "rstrip s = [] \<longleftrightarrow> list_all isspace s"
  by (simp add: rstrip_def list_all_iff)

lemma strip_empty_iff: "strip s = [] \<longleftrightarrow> list_all isspace s"
proof
  assume "strip s = []"
  then have a: "list_all isspace (dropWhile isspace s)"
    by (simp add: strip_def rstrip_empty_iff lstrip_def)
  show "list_all isspace s"
  proof (rule ccontr)
    assume "\<not> list_all isspace s"
    then have "dropWhile isspace s \<noteq> []" by (simp add: list_all_iff)
    then have "\<not> isspace (hd (dropWhile isspace s))" by (rule hd_dropWhile)
    moreover have "hd (dropWhile isspace s) \<in> set (dropWhile isspace s)"
      using \<open>dropWhile isspace s \<noteq> []\<close> by simp
    ultimately show False using a by (auto simp: list_all_iff)
  qed
next
  assume "list_all isspace s"
  then have "dropWhile isspace s = []" by (simp add: list_all_iff)
  then show "strip s = []"
    by (simp only: strip_def lstrip_def rstrip_def dropWhile.simps rev.simps)
qed

lemma split_runs_blank: "list_all isspace s \<Longrightarrow> split_runs [] s = []"
  by (induction s) auto













subsection \<open>Command runner\<close>












subsection \<open>Operation worker\<close>









subsection \<open>Official search\<close>

declare parse_pacman_lines.simps(2) [simp del]














text \<open>The line is stripped before it is tested for a leading space, so an indented line
  that is not consumed as a description is read as a record line.\<close>

lemma parse_pacman_search_second_indented_line: "map name (parse_pacman_search nothing_installed
   (''core/vim 2:9.1.0-1'' @ [newline] @ ''    Vi Improved'' @ [newline] @ ''    a second line''))
   = [''core/vim'', ''a'']"
  by code_simp

subsection \<open>AUR search\<close>



lemma parse_aur_lines_append:
  "parse_aur_lines inst (ls @ ls') = parse_aur_lines inst ls @ parse_aur_lines inst ls'"
  by (induction ls) auto




subsection \<open>Update scanner\<close>

lemma parse_update_lines_concat: "parse_update_lines ls = concat (map parse_update_line ls)"
  by (induction ls) auto

text \<open>
  C8, as the code has it. The update scanner splits each line at white space and produces
  the item (name: field 0, from: field 1, to: field 3) exactly when the line has at least
  four fields and field 2 is the literal \<^verbatim>\<open>->\<close>; every other line gives no item and no
  error. The items are those of the lines of the stripped output, in order. When the
  query raises (it cannot be started, or it times out) the list is empty.
\<close>

theorem load_updates_items:
  "parse_update_line line =
     (if 4 \<le> length (split_whitespace line) \<and> split_whitespace line ! 2 = ''->''
      then [\<lparr>upd_name = split_whitespace line ! 0, upd_from = split_whitespace line ! 1,
             upd_to = split_whitespace line ! 3\<rparr>]
      else [])
   \<and> (sys [''bash'', ''-lc'', ''pacman -Qu''] = Raised \<longrightarrow> load_updates_worker sys = [])
   \<and> (sys [''bash'', ''-lc'', ''pacman -Qu''] = Completed rc out \<longrightarrow>
        load_updates_worker sys = concat (map parse_update_line (str_split (strip out) newline)))
   \<and> parse_update_line ''firefox 120.0-1 -> 121.0-1''
       = [\<lparr>upd_name = ''firefox'', upd_from = ''120.0-1'', upd_to = ''121.0-1''\<rparr>]
   \<and> parse_update_line ''malformed line'' = []"
proof -
  have "split_whitespace line = []" if "strip line = []"
    using that by (simp add: strip_empty_iff split_whitespace_def split_runs_blank)
  then have a: "parse_update_line line =
     (if 4 \<le> length (split_whitespace line) \<and> split_whitespace line ! 2 = ''->''
      then [\<lparr>upd_name = split_whitespace line ! 0, upd_from = split_whitespace line ! 1,
             upd_to = split_whitespace line ! 3\<rparr>]
      else [])"
    by (auto simp: parse_update_line_def Let_def)
  have b: "parse_update_line ''firefox 120.0-1 -> 121.0-1''
       = [\<lparr>upd_name = ''firefox'', upd_from = ''120.0-1'', upd_to = ''121.0-1''\<rparr>]"
    by (simp add: parse_update_line_def split_whitespace_def strip_def lstrip_def rstrip_def
        isspace_def)
  have c: "parse_update_line ''malformed line'' = []"
    by (simp add: parse_update_line_def split_whitespace_def strip_def lstrip_def rstrip_def
        isspace_def)
  show ?thesis
    by (simp add: a [symmetric] b c load_updates_worker_def parse_update_lines_concat)
qed

theorem load_updates_items_witness:
  "load_updates_worker broken_sys = []
   \<and> load_updates_worker updates_sys
       = [\<lparr>upd_name = ''firefox'', upd_from = ''120.0-1'', upd_to = ''121.0-1''\<rparr>]"
proof -
  let ?out = "''firefox 120.0-1 -> 121.0-1'' @ [newline] @ ''malformed line'' @ [newline]"
  have r: "broken_sys [''bash'', ''-lc'', ''pacman -Qu''] = Raised"
    by (simp add: broken_sys_def)
  have c: "updates_sys [''bash'', ''-lc'', ''pacman -Qu''] = Completed 0 ?out"
    by (simp add: updates_sys_def)
  have s: "str_split (strip ?out) newline = [''firefox 120.0-1 -> 121.0-1'', ''malformed line'']"
    by code_simp
  have "load_updates_worker broken_sys = []"
    by (rule load_updates_items [where sys = broken_sys, THEN conjunct2, THEN conjunct1,
          THEN mp, OF r])
  moreover have "load_updates_worker updates_sys
       = [\<lparr>upd_name = ''firefox'', upd_from = ''120.0-1'', upd_to = ''121.0-1''\<rparr>]"
  proof -
    note t = load_updates_items [where sys = updates_sys and rc = 0 and out = ?out]
    have "load_updates_worker updates_sys
        = concat (map parse_update_line (str_split (strip ?out) newline))"
      by (rule t [THEN conjunct2, THEN conjunct2, THEN conjunct1, THEN mp, OF c])
    also have "\<dots> = parse_update_line ''firefox 120.0-1 -> 121.0-1''
                     @ parse_update_line ''malformed line''"
      by (simp only: s list.map concat.simps append_Nil2)
    also have "\<dots> = [\<lparr>upd_name = ''firefox'', upd_from = ''120.0-1'', upd_to = ''121.0-1''\<rparr>]"
      by (simp only: t [THEN conjunct2, THEN conjunct2, THEN conjunct2] append_Nil2)
    finally show ?thesis .
  qed
  ultimately show ?thesis by simp
qed

text \<open>
  C8 as stated fails: in the line \<^verbatim>\<open>pkg 1.0 ->\<close> the token at position 2 is \<^verbatim>\<open>->\<close>, and
  no item is produced, since the line has no field 3.
\<close>

theorem load_updates_items_counterexample:
  "split_whitespace ''pkg 1.0 ->'' ! 2 = ''->'' \<and> parse_update_line ''pkg 1.0 ->'' = []"
  by code_simp

subsection \<open>Details cache\<close>

lemma dict_set_miss: "map_of d k = None \<Longrightarrow> dict_set d k v = d @ [(k, v)]"
  by (induction d) (auto split: if_splits)

lemma pop_keys_filter: "pop_keys ks d = filter (\<lambda>e. fst e \<notin> set ks) d"
proof (induction ks arbitrary: d)
  case Nil
  then show ?case by simp
next
  case (Cons k ks)
  have "pop_keys (k # ks) d = filter (\<lambda>e. fst e \<notin> set ks) (filter (\<lambda>e. fst e \<noteq> k) d)"
    by (simp add: Cons dict_pop_def)
  also have "\<dots> = filter (\<lambda>e. fst e \<notin> set (k # ks)) d"
    by (auto intro: filter_cong)
  finally show ?case .
qed



lemma map_of_filter_keys:
  "k \<notin> S \<Longrightarrow> map_of (filter (\<lambda>e. fst e \<notin> S) d) k = map_of d k"
  by (induction d) auto

lemma cull_keeps_new:
  assumes "map_of c k = None"
  shows "map_of (cull (c @ [(k, v)])) k = Some v"
    and "200 < length (c @ [(k, v)]) \<Longrightarrow> k \<notin> set (take 50 (map fst (c @ [(k, v)])))"
proof -
  have nk: "k \<notin> set (map fst c)"
    using assms by (simp add: map_of_eq_None_iff)
  have m: "map_of (c @ [(k, v)]) k = Some v"
    using assms by (simp add: map_add_def)
  show out: "k \<notin> set (take 50 (map fst (c @ [(k, v)])))" if "200 < length (c @ [(k, v)])"
  proof -
    from that have "take 50 (map fst (c @ [(k, v)])) = take 50 (map fst c)" by simp
    with nk show ?thesis by (auto dest: in_set_takeD)
  qed
  show "map_of (cull (c @ [(k, v)])) k = Some v"
  proof (cases "200 < length (c @ [(k, v)])")
    case True
    then have "cull (c @ [(k, v)])
                 = filter (\<lambda>e. fst e \<notin> set (take 50 (map fst (c @ [(k, v)])))) (c @ [(k, v)])"
      by (simp only: cull_def pop_keys_filter if_True)
    then show ?thesis
      using map_of_filter_keys [OF out [OF True], of "c @ [(k, v)]"] m by (simp only:)
  next
    case False
    with m show ?thesis by (simp add: cull_def del: map_of_append)
  qed
qed

lemma cached_after_resolution:
  "map_of (new_cache (get_package_details sys c nm repo wd)) (cache_key nm repo wd)
     = Some (result (get_package_details sys c nm repo wd))"
proof (cases "map_of c (cache_key nm repo wd)")
  case None
  then show ?thesis
    by (simp add: get_package_details_def pending_cache_def dict_set_miss cull_keeps_new(1))
next
  case (Some hit)
  then show ?thesis by (simp add: get_package_details_def)
qed

text \<open>
  C5. Two calls of the details resolver with the same key, nothing else touching the
  cache between them, return the same dictionary; the second call finds the key in the
  cache, runs no command, whatever the system would answer, and leaves the cache as it is.
\<close>

theorem get_package_details_idempotent:
  "result (get_package_details sys2
            (new_cache (get_package_details sys1 c nm repo wd)) nm repo wd)
     = result (get_package_details sys1 c nm repo wd)
   \<and> processes (get_package_details sys2
            (new_cache (get_package_details sys1 c nm repo wd)) nm repo wd) = []
   \<and> new_cache (get_package_details sys2
            (new_cache (get_package_details sys1 c nm repo wd)) nm repo wd)
     = new_cache (get_package_details sys1 c nm repo wd)"
  using cached_after_resolution [of sys1 c nm repo wd]
  by (simp add: get_package_details_def [of sys2])



theorem get_package_details_idempotent_witness:
  "processes (get_package_details broken_sys [] ''vim'' ''core'' False)
     = [[''pacman'', ''-Qi'', ''vim'']]
   \<and> processes (get_package_details vim_sys
        (new_cache (get_package_details broken_sys [] ''vim'' ''core'' False))
        ''vim'' ''core'' False) = []
   \<and> result (get_package_details vim_sys
        (new_cache (get_package_details broken_sys [] ''vim'' ''core'' False))
        ''vim'' ''core'' False) = initial_info ''vim'' ''core''"
proof -
  have f: "fetch_details broken_sys ''vim'' ''core'' False
             = (initial_info ''vim'' ''core'', [[''pacman'', ''-Qi'', ''vim'']])"
    by (simp add: fetch_details_def primary_lookup_def broken_sys_def)
  have "processes (get_package_details broken_sys [] ''vim'' ''core'' False)
          = [[''pacman'', ''-Qi'', ''vim'']]"
    and "result (get_package_details broken_sys [] ''vim'' ''core'' False)
          = initial_info ''vim'' ''core''"
    by (simp_all add: get_package_details_def f)
  then show ?thesis
    using get_package_details_idempotent [of vim_sys broken_sys "[]" "''vim''" "''core''" False]
    by simp
qed


















subsection \<open>One operation at a time\<close>


















text \<open>
  C10. The progress-hint classifier emits at most one hint per line, chosen by the fixed
  priority ``downloading'' (50), ``installing'' (75), ``removing'' (60), ``loading'' (40)
  on the lower-cased line; a line whose lower-cased form contains ``downloading'' reports
  50 and never 40, although ``loading'' is a substring of it.
\<close>

theorem progress_hint_priority:
  "length (progress_hint line) \<le> 1
   \<and> progress_hint line =
       (if contains (lower line) ''downloading'' then [Progress 50]
        else if contains (lower line) ''installing'' then [Progress 75]
        else if contains (lower line) ''removing'' then [Progress 60]
        else if contains (lower line) ''loading'' then [Progress 40]
        else [])
   \<and> (contains (lower line) ''downloading'' \<longrightarrow>
        contains (lower line) ''loading''
        \<and> progress_hint line = [Progress 50]
        \<and> Progress 40 \<notin> set (progress_hint line))"
proof -
  have "contains (lower line) ''loading''" if "contains (lower line) ''downloading''"
  proof -
    from that obtain a b where "lower line = a @ ''downloading'' @ b"
      by (auto simp: contains_iff)
    then have "lower line = (a @ ''down'') @ ''loading'' @ b" by simp
    then show ?thesis unfolding contains_iff by blast
  qed
  then show ?thesis by (auto simp: progress_hint_def Let_def)
qed

theorem progress_hint_priority_witness:
  "progress_hint ''Downloading firefox...'' = [Progress 50]
   \<and> contains (lower ''Downloading firefox...'') ''loading''"
  using progress_hint_priority [of "''Downloading firefox...''"]
  by code_simp

end
